theory Spec2Isabelle
  imports Main "HOL-Library.Word"
begin

unbundle bit_operations_syntax

section \<open>Data model (order.hpp, order\_book.hpp, matching\_engine.hpp)\<close>

text \<open>
  The C++ code links orders and price levels with raw pointers and mutates them in place.
  The model keeps that: a pointer is an optional address (\<open>None\<close> is \<open>nullptr\<close>), the
  \<open>Order\<close> objects live in a store indexed by the address (the slot number of the engine's
  pool), the \<open>PriceLevel\<close> objects of a book live in the book's own pool, indexed by the
  position in \<open>price_level_pool_\<close>. Unsigned C++ integers are words of their width.
\<close>

datatype Side = BUY | SELL

datatype OrderType = LIMIT | MARKET | CANCEL

type_synonym order_ptr = "nat option"
type_synonym level_ptr = "nat option"

text \<open>\<open>struct Order\<close>. The fields \<open>next\<close>, \<open>prev\<close> and \<open>type\<close> carry a suffix.\<close>

record Order =
  order_id :: "64 word"
  timestamp :: "64 word"
  price :: "32 word"
  quantity :: "32 word"
  remaining_quantity :: "32 word"
  side :: Side
  order_type :: OrderType
  next_order :: order_ptr
  prev_order :: order_ptr
  parent_level :: level_ptr

text \<open>\<open>struct ExecutionReport\<close> (fields that share a name with \<open>Order\<close> are prefixed).\<close>

record ExecutionReport =
  rep_order_id :: "64 word"
  match_id :: "64 word"
  rep_timestamp :: "64 word"
  rep_price :: "32 word"
  executed_quantity :: "32 word"
  rep_side :: Side
  is_full_fill :: bool

text \<open>\<open>class PriceLevel\<close>.\<close>

record PriceLevel =
  level_price :: "32 word"
  total_volume :: "32 word"
  order_count :: "32 word"
  head_order :: order_ptr
  tail_order :: order_ptr
  parent :: level_ptr
  left :: level_ptr
  right :: level_ptr

type_synonym order_store = "nat \<Rightarrow> Order"
type_synonym level_store = "nat \<Rightarrow> PriceLevel"

text \<open>\<open>class OrderBook\<close>. \<open>orders\<close> is the \<open>unordered_map\<close> from order id to \<open>Order*\<close>;
  \<open>level_pool_index\<close> is the book's \<open>pool_index_\<close>, \<open>book_order_count\<close> its
  \<open>order_count_\<close>.\<close>

record OrderBook =
  bid_tree_root :: level_ptr
  ask_tree_root :: level_ptr
  best_bid :: level_ptr
  best_ask :: level_ptr
  orders :: "64 word \<rightharpoonup> nat"
  price_level_pool :: level_store
  level_pool_index :: nat
  book_order_count :: "64 word"
  match_count :: "64 word"

text \<open>What makes a call stop without returning normally: a null pointer dereferenced, an
  \<open>assert\<close> that fails, or a loop that has not ended when the fuel is used up.\<close>

datatype error = NullPointer | AssertionFailed | OutOfFuel

definition bind_result :: "error + 'a \<Rightarrow> ('a \<Rightarrow> error + 'b) \<Rightarrow> error + 'b" where
  "bind_result m f = (case m of Inl e \<Rightarrow> Inl e | Inr x \<Rightarrow> f x)"

section \<open>The SPSC queue (order.hpp)\<close>

text \<open>\<open>SPSCQueue<T, Capacity>\<close>, run by one thread at a time. \<open>head\<close> and \<open>tail\<close> stay
  below the capacity, so \<open>head + 1\<close> does not wrap in \<open>size_t\<close>; they are natural numbers
  here. The capacity is the first argument of every operation.\<close>

record 'a SPSCQueue =
  head :: nat
  tail :: nat
  buffer :: "nat \<Rightarrow> 'a"

definition push :: "nat \<Rightarrow> 'a SPSCQueue \<Rightarrow> 'a \<Rightarrow> bool \<times> 'a SPSCQueue" where
  "push Capacity q item =
     (let h = head q; next_head = (h + 1) AND (Capacity - 1)
      in if next_head = tail q then (False, q)
         else (True, q\<lparr>buffer := (buffer q)(h := item), head := next_head\<rparr>))"

text \<open>\<open>pop\<close> returns \<open>false\<close> and leaves \<open>item\<close> alone, or \<open>true\<close> with the element
  written to \<open>item\<close>: an optional element here.\<close>

definition pop :: "nat \<Rightarrow> 'a SPSCQueue \<Rightarrow> 'a option \<times> 'a SPSCQueue" where
  "pop Capacity q =
     (let t = tail q
      in if t = head q then (None, q)
         else (Some (buffer q t), q\<lparr>tail := (t + 1) AND (Capacity - 1)\<rparr>))"

definition empty_q :: "'a SPSCQueue \<Rightarrow> bool" where
  "empty_q q = (tail q = head q)"

definition size_q :: "nat \<Rightarrow> 'a SPSCQueue \<Rightarrow> nat" where
  "size_q Capacity q =
     (if head q \<ge> tail q then head q - tail q else Capacity - tail q + head q)"

text \<open>A run of the queue by one thread: the operations called and what each returned.\<close>

datatype 'a queue_op = Push 'a | Pop
datatype 'a queue_result = Pushed bool | Popped "'a option"

fun run_queue :: "nat \<Rightarrow> 'a queue_op list \<Rightarrow> 'a SPSCQueue \<Rightarrow> 'a queue_result list" where
  "run_queue C [] q = []"
| "run_queue C (Push x # ops) q = (case push C q x of (ok, q1) \<Rightarrow> Pushed ok # run_queue C ops q1)"
| "run_queue C (Pop # ops) q = (case pop C q of (r, q1) \<Rightarrow> Popped r # run_queue C ops q1)"

text \<open>The bounded FIFO of the claim about the queue, in the claim's words: at most \<open>cap\<close>
  elements are held; a push is refused exactly when \<open>cap\<close> elements are held, and else
  the element goes to the back; a pop is refused exactly when nothing is held, and else
  hands out the front element.\<close>

fun bounded_fifo_run :: "nat \<Rightarrow> 'a queue_op list \<Rightarrow> 'a list \<Rightarrow> 'a queue_result list" where
  "bounded_fifo_run cap [] xs = []"
| "bounded_fifo_run cap (Push x # ops) xs =
     (if length xs = cap then Pushed False # bounded_fifo_run cap ops xs
      else Pushed True # bounded_fifo_run cap ops (xs @ [x]))"
| "bounded_fifo_run cap (Pop # ops) xs =
     (case xs of
        [] \<Rightarrow> Popped None # bounded_fifo_run cap ops []
      | y # ys \<Rightarrow> Popped (Some y) # bounded_fifo_run cap ops ys)"

text \<open>The elements a queue holds, oldest first: the slots from \<open>tail\<close> up to \<open>head\<close>,
  around the end of the array; and the range the two indices stay in.\<close>

definition stored :: "nat \<Rightarrow> 'a SPSCQueue \<Rightarrow> 'a list" where
  "stored C q = map (\<lambda>i. buffer q ((tail q + i) mod C)) [0..<size_q C q]"

definition in_range :: "nat \<Rightarrow> 'a SPSCQueue \<Rightarrow> bool" where
  "in_range C q = (head q < C \<and> tail q < C)"

section \<open>Price level FIFO (order\_book.cpp)\<close>

text \<open>\<open>PriceLevel::add_order\<close>, \<open>this\<close> being the level at address \<open>l\<close>. The statements
  are run in the source's order, each reading the store the previous one left.\<close>

definition level_add_order ::
  "nat \<Rightarrow> nat \<Rightarrow> order_store \<times> level_store \<Rightarrow> error + order_store \<times> level_store" where
  "level_add_order l ord = (\<lambda>(os, ls).
     if price (os ord) \<noteq> level_price (ls l) then Inl AssertionFailed
     else
       let os1 = os(ord := (os ord)\<lparr>parent_level := Some l, next_order := None,
                                     prev_order := tail_order (ls l)\<rparr>);
           (os2, ls1) = (case tail_order (ls l) of
                Some t \<Rightarrow> (os1(t := (os1 t)\<lparr>next_order := Some ord\<rparr>), ls)
              | None \<Rightarrow> (os1, ls(l := (ls l)\<lparr>head_order := Some ord\<rparr>)));
           ls2 = ls1(l := (ls1 l)\<lparr>tail_order := Some ord\<rparr>);
           ls3 = ls2(l := (ls2 l)\<lparr>total_volume :=
                    total_volume (ls2 l) + remaining_quantity (os2 ord)\<rparr>);
           ls4 = ls3(l := (ls3 l)\<lparr>order_count := order_count (ls3 l) + 1\<rparr>)
       in Inr (os2, ls4))"

text \<open>\<open>PriceLevel::remove_order\<close>.\<close>

definition level_remove_order ::
  "nat \<Rightarrow> nat \<Rightarrow> order_store \<times> level_store \<Rightarrow> error + order_store \<times> level_store" where
  "level_remove_order l ord = (\<lambda>(os, ls).
     if parent_level (os ord) \<noteq> Some l then Inl AssertionFailed
     else
       let (os1, ls1) = (case prev_order (os ord) of
                Some p \<Rightarrow> (os(p := (os p)\<lparr>next_order := next_order (os ord)\<rparr>), ls)
              | None \<Rightarrow> (os, ls(l := (ls l)\<lparr>head_order := next_order (os ord)\<rparr>)));
           (os2, ls2) = (case next_order (os1 ord) of
                Some n \<Rightarrow> (os1(n := (os1 n)\<lparr>prev_order := prev_order (os1 ord)\<rparr>), ls1)
              | None \<Rightarrow> (os1, ls1(l := (ls1 l)\<lparr>tail_order := prev_order (os1 ord)\<rparr>)));
           ls3 = ls2(l := (ls2 l)\<lparr>total_volume :=
                    total_volume (ls2 l) - remaining_quantity (os2 ord)\<rparr>);
           ls4 = ls3(l := (ls3 l)\<lparr>order_count := order_count (ls3 l) - 1\<rparr>);
           os3 = os2(ord := (os2 ord)\<lparr>parent_level := None, next_order := None,
                                       prev_order := None\<rparr>)
       in Inr (os3, ls4))"

section \<open>The level index: an unbalanced search tree of price levels\<close>

text \<open>The size of \<open>price_level_pool_\<close>, fixed in the constructor of \<open>OrderBook\<close>.\<close>

definition price_level_pool_size :: nat where
  "price_level_pool_size = 10000"

text \<open>\<open>PriceLevel(0)\<close>, the state of every pooled level after construction.\<close>

definition new_PriceLevel :: "32 word \<Rightarrow> PriceLevel" where
  "new_PriceLevel p = \<lparr>level_price = p, total_volume = 0, order_count = 0,
     head_order = None, tail_order = None, parent = None, left = None, right = None\<rparr>"

text \<open>\<open>OrderBook::OrderBook()\<close>.\<close>

definition new_OrderBook :: OrderBook where
  "new_OrderBook = \<lparr>bid_tree_root = None, ask_tree_root = None, best_bid = None,
     best_ask = None, orders = Map.empty, price_level_pool = (\<lambda>_. new_PriceLevel 0),
     level_pool_index = 0, book_order_count = 0, match_count = 0\<rparr>"

text \<open>\<open>OrderBook::find_level\<close>: the loop walks down from \<open>root\<close>; one unit of fuel per
  node visited.\<close>

fun find_level :: "nat \<Rightarrow> level_store \<Rightarrow> 32 word \<Rightarrow> level_ptr \<Rightarrow> error + level_ptr" where
  "find_level fuel ls p None = Inr None"
| "find_level 0 ls p (Some r) = Inl OutOfFuel"
| "find_level (Suc fuel) ls p (Some r) =
     (if p = level_price (ls r) then Inr (Some r)
      else find_level fuel ls p (if p < level_price (ls r) then left (ls r) else right (ls r)))"

text \<open>The \<open>while (true)\<close> loop of \<open>OrderBook::insert_level\<close>, from \<open>current\<close> on.\<close>

fun insert_walk :: "nat \<Rightarrow> level_store \<Rightarrow> 32 word \<Rightarrow> nat \<Rightarrow> nat \<Rightarrow> error + level_store" where
  "insert_walk 0 ls p new_level current = Inl OutOfFuel"
| "insert_walk (Suc fuel) ls p new_level current =
     (if p < level_price (ls current) then
        (case left (ls current) of
           None \<Rightarrow>
             let ls1 = ls(current := (ls current)\<lparr>left := Some new_level\<rparr>)
             in Inr (ls1(new_level := (ls1 new_level)\<lparr>parent := Some current\<rparr>))
         | Some c \<Rightarrow> insert_walk fuel ls p new_level c)
      else
        (case right (ls current) of
           None \<Rightarrow>
             let ls1 = ls(current := (ls current)\<lparr>right := Some new_level\<rparr>)
             in Inr (ls1(new_level := (ls1 new_level)\<lparr>parent := Some current\<rparr>))
         | Some c \<Rightarrow> insert_walk fuel ls p new_level c))"

text \<open>\<open>OrderBook::insert_level(price, root)\<close>. \<open>root\<close> is a reference to one of the two
  root fields of the book: the model takes its value and returns the new one, with the
  new level, the level store and the advanced \<open>pool_index_\<close>. The \<open>assert\<close> guards the
  read of \<open>price_level_pool_\<close>.\<close>

definition insert_level ::
  "nat \<Rightarrow> 32 word \<Rightarrow> level_ptr \<Rightarrow> level_store \<times> nat \<Rightarrow>
     error + (nat \<times> level_ptr \<times> level_store \<times> nat)" where
  "insert_level fuel p root = (\<lambda>(ls, idx).
     if \<not> idx < price_level_pool_size then Inl AssertionFailed
     else
       let new_level = idx;
           ls1 = ls(new_level := (ls new_level)\<lparr>level_price := p, total_volume := 0,
                     order_count := 0, head_order := None, tail_order := None,
                     parent := None, left := None, right := None\<rparr>)
       in case root of
            None \<Rightarrow> Inr (new_level, Some new_level, ls1, idx + 1)
          | Some r \<Rightarrow>
              bind_result (insert_walk fuel ls1 p new_level r)
                (\<lambda>ls2. Inr (new_level, root, ls2, idx + 1)))"

text \<open>The root reference that \<open>find_or_create_level\<close>, \<open>cancel_order\<close> and \<open>match_order\<close>
  pick by side.\<close>

definition tree_root :: "Side \<Rightarrow> OrderBook \<Rightarrow> level_ptr" where
  "tree_root s b = (case s of BUY \<Rightarrow> bid_tree_root b | SELL \<Rightarrow> ask_tree_root b)"

definition set_tree_root :: "Side \<Rightarrow> level_ptr \<Rightarrow> OrderBook \<Rightarrow> OrderBook" where
  "set_tree_root s r b =
     (case s of BUY \<Rightarrow> b\<lparr>bid_tree_root := r\<rparr> | SELL \<Rightarrow> b\<lparr>ask_tree_root := r\<rparr>)"

text \<open>\<open>OrderBook::find_or_create_level\<close>.\<close>

definition find_or_create_level ::
  "nat \<Rightarrow> 32 word \<Rightarrow> Side \<Rightarrow> OrderBook \<Rightarrow> error + (nat \<times> OrderBook)" where
  "find_or_create_level fuel p s b =
     bind_result (find_level fuel (price_level_pool b) p (tree_root s b))
       (\<lambda>found. case found of
            Some level \<Rightarrow> Inr (level, b)
          | None \<Rightarrow>
              bind_result
                (insert_level fuel p (tree_root s b) (price_level_pool b, level_pool_index b))
                (\<lambda>(level, root, ls, idx).
                   Inr (level, set_tree_root s root
                                 (b\<lparr>price_level_pool := ls, level_pool_index := idx\<rparr>))))"

text \<open>The loops \<open>while (x->left) x = x->left\<close> and \<open>while (x->right) x = x->right\<close> of
  \<open>remove_level\<close>, \<open>update_best_ask\<close> and \<open>update_best_bid\<close>.\<close>

fun leftmost :: "nat \<Rightarrow> level_store \<Rightarrow> nat \<Rightarrow> error + nat" where
  "leftmost 0 ls x = (case left (ls x) of None \<Rightarrow> Inr x | Some c \<Rightarrow> Inl OutOfFuel)"
| "leftmost (Suc fuel) ls x = (case left (ls x) of None \<Rightarrow> Inr x | Some c \<Rightarrow> leftmost fuel ls c)"

fun rightmost :: "nat \<Rightarrow> level_store \<Rightarrow> nat \<Rightarrow> error + nat" where
  "rightmost 0 ls x = (case right (ls x) of None \<Rightarrow> Inr x | Some c \<Rightarrow> Inl OutOfFuel)"
| "rightmost (Suc fuel) ls x = (case right (ls x) of None \<Rightarrow> Inr x | Some c \<Rightarrow> rightmost fuel ls c)"

text \<open>The assignment \<open>level->parent->left = v\<close> or \<open>level->parent->right = v\<close>, whichever
  child of the parent \<open>level\<close> is, or \<open>root = v\<close> when \<open>level\<close> has no parent.\<close>

definition replace_in_parent ::
  "nat \<Rightarrow> level_ptr \<Rightarrow> level_store \<times> level_ptr \<Rightarrow> level_store \<times> level_ptr" where
  "replace_in_parent level v = (\<lambda>(ls, root).
     case parent (ls level) of
       Some par \<Rightarrow>
         if left (ls par) = Some level then (ls(par := (ls par)\<lparr>left := v\<rparr>), root)
         else (ls(par := (ls par)\<lparr>right := v\<rparr>), root)
     | None \<Rightarrow> (ls, v))"

text \<open>\<open>OrderBook::remove_level(level, root)\<close>. The function calls itself on the
  successor: every call takes one unit of fuel.\<close>

fun remove_level ::
  "nat \<Rightarrow> nat \<Rightarrow> level_store \<times> level_ptr \<Rightarrow> error + level_store \<times> level_ptr" where
  "remove_level 0 level (ls, root) = Inl OutOfFuel"
| "remove_level (Suc fuel) level (ls, root) =
     (if left (ls level) = None \<and> right (ls level) = None then
        Inr (replace_in_parent level None (ls, root))
      else if left (ls level) = None then
        (let (ls1, root1) = replace_in_parent level (right (ls level)) (ls, root)
         in case right (ls1 level) of
              Some r \<Rightarrow> Inr (ls1(r := (ls1 r)\<lparr>parent := parent (ls1 level)\<rparr>), root1)
            | None \<Rightarrow> Inr (ls1, root1))
      else if right (ls level) = None then
        (let (ls1, root1) = replace_in_parent level (left (ls level)) (ls, root)
         in case left (ls1 level) of
              Some c \<Rightarrow> Inr (ls1(c := (ls1 c)\<lparr>parent := parent (ls1 level)\<rparr>), root1)
            | None \<Rightarrow> Inr (ls1, root1))
      else
        (case right (ls level) of
           None \<Rightarrow> Inl NullPointer
         | Some r \<Rightarrow>
             bind_result (leftmost fuel ls r)
               (\<lambda>successor.
                  let ls1 = ls(level := (ls level)\<lparr>level_price := level_price (ls successor)\<rparr>);
                      ls2 = ls1(level := (ls1 level)\<lparr>total_volume := total_volume (ls1 successor)\<rparr>);
                      ls3 = ls2(level := (ls2 level)\<lparr>order_count := order_count (ls2 successor)\<rparr>);
                      ls4 = ls3(level := (ls3 level)\<lparr>head_order := head_order (ls3 successor)\<rparr>);
                      ls5 = ls4(level := (ls4 level)\<lparr>tail_order := tail_order (ls4 successor)\<rparr>)
                  in remove_level fuel successor (ls5, root))))"

text \<open>\<open>OrderBook::update_best_bid\<close> and \<open>OrderBook::update_best_ask\<close>.\<close>

definition update_best_bid :: "nat \<Rightarrow> OrderBook \<Rightarrow> error + OrderBook" where
  "update_best_bid fuel b =
     (case bid_tree_root b of
        None \<Rightarrow> Inr (b\<lparr>best_bid := None\<rparr>)
      | Some r \<Rightarrow> bind_result (rightmost fuel (price_level_pool b) r)
                    (\<lambda>x. Inr (b\<lparr>best_bid := Some x\<rparr>)))"

definition update_best_ask :: "nat \<Rightarrow> OrderBook \<Rightarrow> error + OrderBook" where
  "update_best_ask fuel b =
     (case ask_tree_root b of
        None \<Rightarrow> Inr (b\<lparr>best_ask := None\<rparr>)
      | Some r \<Rightarrow> bind_result (leftmost fuel (price_level_pool b) r)
                    (\<lambda>x. Inr (b\<lparr>best_ask := Some x\<rparr>)))"

section \<open>Order book operations (order\_book.cpp)\<close>

text \<open>\<open>OrderBook::add_order(order)\<close>. The \<open>Order\<close> objects are not owned by the book, so
  the operations take and return the order store with the book.\<close>

definition add_order ::
  "nat \<Rightarrow> nat \<Rightarrow> order_store \<times> OrderBook \<Rightarrow> error + order_store \<times> OrderBook" where
  "add_order fuel ord = (\<lambda>(os, b).
     bind_result (find_or_create_level fuel (price (os ord)) (side (os ord)) b)
       (\<lambda>(level, b1).
          bind_result (level_add_order level ord (os, price_level_pool b1))
            (\<lambda>(os1, ls1).
               let b2 = b1\<lparr>price_level_pool := ls1\<rparr>;
                   b3 = b2\<lparr>orders := (orders b2)(order_id (os1 ord) \<mapsto> ord)\<rparr>;
                   b4 = (if side (os1 ord) = BUY then
                           (case best_bid b3 of
                              None \<Rightarrow> b3\<lparr>best_bid := Some level\<rparr>
                            | Some bb \<Rightarrow>
                                if level_price (price_level_pool b3 level)
                                     > level_price (price_level_pool b3 bb)
                                then b3\<lparr>best_bid := Some level\<rparr> else b3)
                         else
                           (case best_ask b3 of
                              None \<Rightarrow> b3\<lparr>best_ask := Some level\<rparr>
                            | Some ba \<Rightarrow>
                                if level_price (price_level_pool b3 level)
                                     < level_price (price_level_pool b3 ba)
                                then b3\<lparr>best_ask := Some level\<rparr> else b3))
               in Inr (os1, b4\<lparr>book_order_count := book_order_count b4 + 1\<rparr>))))"

text \<open>\<open>OrderBook::cancel_order(order_id)\<close>.\<close>

definition cancel_order ::
  "nat \<Rightarrow> 64 word \<Rightarrow> order_store \<times> OrderBook \<Rightarrow> error + order_store \<times> OrderBook" where
  "cancel_order fuel oid = (\<lambda>(os, b).
     case orders b oid of
       None \<Rightarrow> Inr (os, b)
     | Some ord \<Rightarrow>
         (case parent_level (os ord) of
            None \<Rightarrow> Inl NullPointer
          | Some level \<Rightarrow>
              bind_result (level_remove_order level ord (os, price_level_pool b))
                (\<lambda>(os1, ls1).
                   let b1 = b\<lparr>price_level_pool := ls1\<rparr>
                   in bind_result
                        (if order_count (ls1 level) = 0 then
                           bind_result
                             (remove_level fuel level (ls1, tree_root (side (os1 ord)) b1))
                             (\<lambda>(ls2, root).
                                let b2 = set_tree_root (side (os1 ord)) root
                                           (b1\<lparr>price_level_pool := ls2\<rparr>)
                                in if side (os1 ord) = BUY then
                                     (if Some level = best_bid b2 then update_best_bid fuel b2
                                      else Inr b2)
                                   else
                                     (if Some level = best_ask b2 then update_best_ask fuel b2
                                      else Inr b2))
                         else Inr b1)
                        (\<lambda>b3. Inr (os1, b3\<lparr>orders := (orders b3)(oid := None),
                                          book_order_count := book_order_count b3 - 1\<rparr>)))))"

text \<open>\<open>OrderBook::modify_order(order_id, new_quantity)\<close>.\<close>

definition modify_order ::
  "64 word \<Rightarrow> 32 word \<Rightarrow> order_store \<times> OrderBook \<Rightarrow> error + order_store \<times> OrderBook" where
  "modify_order oid new_quantity = (\<lambda>(os, b).
     case orders b oid of
       None \<Rightarrow> Inr (os, b)
     | Some ord \<Rightarrow>
         (case parent_level (os ord) of
            None \<Rightarrow> Inl NullPointer
          | Some level \<Rightarrow>
              let ls = price_level_pool b;
                  ls1 = ls(level := (ls level)\<lparr>total_volume :=
                           total_volume (ls level) - remaining_quantity (os ord)\<rparr>);
                  os1 = os(ord := (os ord)\<lparr>remaining_quantity := new_quantity\<rparr>);
                  ls2 = ls1(level := (ls1 level)\<lparr>total_volume :=
                           total_volume (ls1 level) + new_quantity\<rparr>)
              in Inr (os1, b\<lparr>price_level_pool := ls2\<rparr>)))"

text \<open>\<open>OrderBook::execute_trade\<close>.\<close>

definition execute_trade :: "Order \<Rightarrow> Order \<Rightarrow> 32 word \<Rightarrow> 64 word \<Rightarrow> ExecutionReport" where
  "execute_trade aggressive passive qty mid =
     \<lparr>rep_order_id = order_id aggressive, match_id = mid,
      rep_timestamp = timestamp aggressive, rep_price = price passive,
      executed_quantity = qty, rep_side = side aggressive,
      is_full_fill = (remaining_quantity aggressive = qty)\<rparr>"

text \<open>The inner loop of \<open>OrderBook::match_order\<close>: the walk along the FIFO of
  \<open>contra_level\<close>, from \<open>passive\<close> on. The state is the order store, the book and the
  reports so far.\<close>

fun match_fifo ::
  "nat \<Rightarrow> nat \<Rightarrow> nat \<Rightarrow> order_ptr \<Rightarrow> order_store \<times> OrderBook \<times> ExecutionReport list \<Rightarrow>
     error + order_store \<times> OrderBook \<times> ExecutionReport list" where
  "match_fifo fuel ord contra_level None st = Inr st"
| "match_fifo fuel ord contra_level (Some passive) (os, b, reports) =
     (if \<not> remaining_quantity (os ord) > 0 then Inr (os, b, reports)
      else case fuel of
        0 \<Rightarrow> Inl OutOfFuel
      | Suc n \<Rightarrow>
          let match_qty = min (remaining_quantity (os ord)) (remaining_quantity (os passive));
              b1 = b\<lparr>match_count := match_count b + 1\<rparr>;
              reports1 = reports @ [execute_trade (os ord) (os passive) match_qty (match_count b1)];
              os1 = os(ord := (os ord)\<lparr>remaining_quantity :=
                       remaining_quantity (os ord) - match_qty\<rparr>);
              os2 = os1(passive := (os1 passive)\<lparr>remaining_quantity :=
                       remaining_quantity (os1 passive) - match_qty\<rparr>);
              ls = price_level_pool b1;
              ls1 = ls(contra_level := (ls contra_level)\<lparr>total_volume :=
                       total_volume (ls contra_level) - match_qty\<rparr>);
              next_passive = next_order (os2 passive)
          in bind_result
               (if remaining_quantity (os2 passive) = 0 then
                  bind_result (level_remove_order contra_level passive (os2, ls1))
                    (\<lambda>(os3, ls2).
                       Inr (os3, b1\<lparr>price_level_pool := ls2,
                                    orders := (orders b1)(order_id (os3 passive) := None),
                                    book_order_count := book_order_count b1 - 1\<rparr>))
                else Inr (os2, b1\<lparr>price_level_pool := ls1\<rparr>))
               (\<lambda>(os4, b2). match_fifo n ord contra_level next_passive (os4, b2, reports1)))"

text \<open>The outer loop of \<open>OrderBook::match_order\<close>, level by level from \<open>contra_level\<close>.\<close>

fun match_levels ::
  "nat \<Rightarrow> nat \<Rightarrow> level_ptr \<Rightarrow> order_store \<times> OrderBook \<times> ExecutionReport list \<Rightarrow>
     error + order_store \<times> OrderBook \<times> ExecutionReport list" where
  "match_levels fuel ord None st = Inr st"
| "match_levels fuel ord (Some contra_level) (os, b, reports) =
     (if \<not> remaining_quantity (os ord) > 0 then Inr (os, b, reports)
      else if order_type (os ord) = LIMIT \<and>
              (side (os ord) = BUY \<and> price (os ord) < level_price (price_level_pool b contra_level)
               \<or> side (os ord) = SELL \<and> price (os ord) > level_price (price_level_pool b contra_level))
      then Inr (os, b, reports)
      else case fuel of
        0 \<Rightarrow> Inl OutOfFuel
      | Suc n \<Rightarrow>
          bind_result
            (match_fifo fuel ord contra_level (head_order (price_level_pool b contra_level))
               (os, b, reports))
            (\<lambda>(os1, b1, reports1).
               if order_count (price_level_pool b1 contra_level) = 0 then
                 let next_level = (if side (os1 ord) = BUY
                                   then right (price_level_pool b1 contra_level)
                                   else left (price_level_pool b1 contra_level))
                 in bind_result
                      (if side (os1 ord) = BUY then
                         bind_result
                           (remove_level fuel contra_level (price_level_pool b1, ask_tree_root b1))
                           (\<lambda>(ls2, root).
                              Inr (b1\<lparr>price_level_pool := ls2, ask_tree_root := root,
                                      best_ask := next_level\<rparr>))
                       else
                         bind_result
                           (remove_level fuel contra_level (price_level_pool b1, bid_tree_root b1))
                           (\<lambda>(ls2, root).
                              Inr (b1\<lparr>price_level_pool := ls2, bid_tree_root := root,
                                      best_bid := next_level\<rparr>)))
                      (\<lambda>b2. match_levels n ord next_level (os1, b2, reports1))
               else Inr (os1, b1, reports1)))"

text \<open>\<open>OrderBook::match_order(order)\<close>: the book and the order store after the call, and
  the reports returned.\<close>

definition match_order ::
  "nat \<Rightarrow> nat \<Rightarrow> order_store \<times> OrderBook \<Rightarrow>
     error + order_store \<times> OrderBook \<times> ExecutionReport list" where
  "match_order fuel ord = (\<lambda>(os, b).
     if order_type (os ord) \<noteq> LIMIT \<and> order_type (os ord) \<noteq> MARKET then Inr (os, b, [])
     else
       let contra_level = (if side (os ord) = BUY then best_ask b else best_bid b)
       in match_levels fuel ord contra_level (os, b, []))"

text \<open>\<open>get_spread\<close>, \<open>get_total_bid_volume\<close> and \<open>get_total_ask_volume\<close>. The sums are
  64-bit, the volumes of the levels 32-bit.\<close>

definition get_spread :: "OrderBook \<Rightarrow> 32 word" where
  "get_spread b =
     (case (best_bid b, best_ask b) of
        (Some bb, Some ba) \<Rightarrow>
          level_price (price_level_pool b ba) - level_price (price_level_pool b bb)
      | _ \<Rightarrow> 0)"

fun sum_right_spine :: "nat \<Rightarrow> level_store \<Rightarrow> level_ptr \<Rightarrow> 64 word \<Rightarrow> error + 64 word" where
  "sum_right_spine fuel ls None volume = Inr volume"
| "sum_right_spine 0 ls (Some level) volume = Inl OutOfFuel"
| "sum_right_spine (Suc fuel) ls (Some level) volume =
     sum_right_spine fuel ls (right (ls level)) (volume + ucast (total_volume (ls level)))"

fun sum_left_spine :: "nat \<Rightarrow> level_store \<Rightarrow> level_ptr \<Rightarrow> 64 word \<Rightarrow> error + 64 word" where
  "sum_left_spine fuel ls None volume = Inr volume"
| "sum_left_spine 0 ls (Some level) volume = Inl OutOfFuel"
| "sum_left_spine (Suc fuel) ls (Some level) volume =
     sum_left_spine fuel ls (left (ls level)) (volume + ucast (total_volume (ls level)))"

definition get_total_bid_volume :: "nat \<Rightarrow> OrderBook \<Rightarrow> error + 64 word" where
  "get_total_bid_volume fuel b = sum_right_spine fuel (price_level_pool b) (bid_tree_root b) 0"

definition get_total_ask_volume :: "nat \<Rightarrow> OrderBook \<Rightarrow> error + 64 word" where
  "get_total_ask_volume fuel b = sum_left_spine fuel (price_level_pool b) (ask_tree_root b) 0"

section \<open>The matching engine (matching\_engine.cpp)\<close>

record EngineConfig =
  num_symbols :: "64 word"
  order_pool_size :: "64 word"
  enable_logging :: bool
  cpu_affinity :: int
  numa_node :: int

text \<open>\<open>class MatchingEngine\<close>. \<open>order_pool\<close> holds the \<open>Order\<close> objects that the entries
  of \<open>order_pool_\<close> point to, slot by slot; \<open>error_count\<close> is the static counter of
  \<open>submit_order\<close>. The text written to \<open>std::cout\<close> and \<open>std::cerr\<close> is left out.\<close>

record MatchingEngine =
  config :: EngineConfig
  books :: "string \<rightharpoonup> OrderBook"
  order_pool :: order_store
  pool_index :: "64 word"
  execution_queue :: "ExecutionReport SPSCQueue"
  total_orders :: "64 word"
  total_matches :: "64 word"
  running :: bool
  error_count :: "64 word"

text \<open>\<open>Order()\<close>, the state of every pooled order after construction.\<close>

definition new_Order :: Order where
  "new_Order = \<lparr>order_id = 0, timestamp = 0, price = 0, quantity = 0,
     remaining_quantity = 0, side = BUY, order_type = LIMIT,
     next_order = None, prev_order = None, parent_level = None\<rparr>"

text \<open>The default configuration of \<open>struct EngineConfig\<close>.\<close>

definition default_config :: EngineConfig where
  "default_config = \<lparr>num_symbols = 100, order_pool_size = 1000000,
     enable_logging = False, cpu_affinity = - 1, numa_node = - 1\<rparr>"

text \<open>\<open>MatchingEngine::MatchingEngine(config)\<close>. The elements of the queue's array are
  default-initialised, that is, left as they are: \<open>buf\<close> stands for them.\<close>

definition new_MatchingEngine :: "EngineConfig \<Rightarrow> (nat \<Rightarrow> ExecutionReport) \<Rightarrow> MatchingEngine" where
  "new_MatchingEngine cfg buf = \<lparr>config = cfg, books = Map.empty,
     order_pool = (\<lambda>_. new_Order), pool_index = 0,
     execution_queue = \<lparr>head = 0, tail = 0, buffer = buf\<rparr>,
     total_orders = 0, total_matches = 0, running = False, error_count = 0\<rparr>"

text \<open>The capacity of \<open>execution_queue_\<close>.\<close>

definition execution_queue_capacity :: nat where
  "execution_queue_capacity = 65536"

text \<open>\<open>MatchingEngine::get_book\<close>.\<close>

definition get_book :: "MatchingEngine \<Rightarrow> string \<Rightarrow> OrderBook option" where
  "get_book e symbol = books e symbol"

text \<open>\<open>MatchingEngine::allocate_order\<close>: the cursor advances on every call, also on the
  calls that fail.\<close>

definition allocate_order :: "MatchingEngine \<Rightarrow> order_ptr \<times> MatchingEngine" where
  "allocate_order e =
     (let idx = pool_index e; e1 = e\<lparr>pool_index := pool_index e + 1\<rparr>
      in if idx \<ge> order_pool_size (config e1) then (None, e1) else (Some (unat idx), e1))"

text \<open>\<open>MatchingEngine::deallocate_order\<close>: an empty body.\<close>

definition deallocate_order :: "nat \<Rightarrow> MatchingEngine \<Rightarrow> MatchingEngine" where
  "deallocate_order ord e = e"

text \<open>The loop of \<open>submit_order\<close> that pushes the reports and counts the matches, left at
  the first push that fails.\<close>

fun push_reports ::
  "ExecutionReport list \<Rightarrow> ExecutionReport SPSCQueue \<times> 64 word \<Rightarrow>
     ExecutionReport SPSCQueue \<times> 64 word" where
  "push_reports [] st = st"
| "push_reports (report # reports) (q, matches) =
     (case push execution_queue_capacity q report of
        (False, q1) \<Rightarrow> (q1, matches)
      | (True, q1) \<Rightarrow> push_reports reports (q1, matches + 1))"

text \<open>The test of \<open>submit_order\<close> that sends an order to \<open>match_order\<close>.\<close>

definition is_aggressive :: "OrderBook \<Rightarrow> 32 word \<Rightarrow> Side \<Rightarrow> OrderType \<Rightarrow> bool" where
  "is_aggressive book p s t =
     (t = MARKET \<or>
      (t = LIMIT \<and>
       ((s = BUY \<and> (case best_ask book of None \<Rightarrow> False
                     | Some ba \<Rightarrow> p \<ge> level_price (price_level_pool book ba))) \<or>
        (s = SELL \<and> (case best_bid book of None \<Rightarrow> False
                      | Some bb \<Rightarrow> p \<le> level_price (price_level_pool book bb))))))"

text \<open>\<open>MatchingEngine::submit_order\<close>.\<close>

definition submit_order ::
  "nat \<Rightarrow> string \<Rightarrow> 64 word \<Rightarrow> 64 word \<Rightarrow> 32 word \<Rightarrow> 32 word \<Rightarrow> Side \<Rightarrow> OrderType \<Rightarrow>
     MatchingEngine \<Rightarrow> error + MatchingEngine" where
  "submit_order fuel symbol oid ts p qty s t e =
     (let book = (case get_book e symbol of None \<Rightarrow> new_OrderBook | Some b \<Rightarrow> b);
          e1 = (case get_book e symbol of
                  None \<Rightarrow> e\<lparr>books := (books e)(symbol \<mapsto> book)\<rparr>
                | Some b \<Rightarrow> e);
          (slot, e2) = allocate_order e1
      in case slot of
           None \<Rightarrow> Inr (e2\<lparr>error_count := error_count e2 + 1\<rparr>)
         | Some ord \<Rightarrow>
             let os = order_pool e2;
                 os1 = os(ord := (os ord)\<lparr>order_id := oid, timestamp := ts, price := p,
                          quantity := qty, remaining_quantity := qty, side := s,
                          order_type := t\<rparr>)
             in bind_result
                  (if is_aggressive book p s t then
                     bind_result (match_order fuel ord (os1, book))
                       (\<lambda>(os2, book1, reports).
                          let (q, matches) = push_reports reports
                                               (execution_queue e2, total_matches e2)
                          in Inr (os2, book1, q, matches))
                   else Inr (os1, book, execution_queue e2, total_matches e2))
                  (\<lambda>(os3, book2, q, matches).
                     bind_result
                       (if remaining_quantity (os3 ord) > 0 \<and> t = LIMIT
                        then bind_result (add_order fuel ord (os3, book2))
                               (\<lambda>(os4, book3). Inr (os4, book3, e2))
                        else Inr (os3, book2, deallocate_order ord e2))
                       (\<lambda>(os4, book3, e3).
                          Inr (e3\<lparr>books := (books e3)(symbol \<mapsto> book3), order_pool := os4,
                                  execution_queue := q, total_matches := matches,
                                  total_orders := total_orders e3 + 1\<rparr>))))"

text \<open>\<open>MatchingEngine::cancel_order\<close> and \<open>MatchingEngine::modify_order\<close>.\<close>

definition engine_cancel_order ::
  "nat \<Rightarrow> string \<Rightarrow> 64 word \<Rightarrow> MatchingEngine \<Rightarrow> error + MatchingEngine" where
  "engine_cancel_order fuel symbol oid e =
     (case get_book e symbol of
        None \<Rightarrow> Inr e
      | Some book \<Rightarrow>
          bind_result (cancel_order fuel oid (order_pool e, book))
            (\<lambda>(os, book1). Inr (e\<lparr>books := (books e)(symbol \<mapsto> book1), order_pool := os\<rparr>)))"

definition engine_modify_order ::
  "string \<Rightarrow> 64 word \<Rightarrow> 32 word \<Rightarrow> MatchingEngine \<Rightarrow> error + MatchingEngine" where
  "engine_modify_order symbol oid new_quantity e =
     (case get_book e symbol of
        None \<Rightarrow> Inr e
      | Some book \<Rightarrow>
          bind_result (modify_order oid new_quantity (order_pool e, book))
            (\<lambda>(os, book1). Inr (e\<lparr>books := (books e)(symbol \<mapsto> book1), order_pool := os\<rparr>)))"

section \<open>Event streams and observations\<close>

text \<open>The externally visible operations of the engine, as the events of a stream, and the
  run of a stream: it stops at the first event that does not return normally.\<close>

datatype event =
    Submit string "64 word" "64 word" "32 word" "32 word" Side OrderType
  | Cancel string "64 word"
  | Modify string "64 word" "32 word"

fun apply_event :: "nat \<Rightarrow> event \<Rightarrow> MatchingEngine \<Rightarrow> error + MatchingEngine" where
  "apply_event fuel (Submit symbol oid ts p qty s t) e = submit_order fuel symbol oid ts p qty s t e"
| "apply_event fuel (Cancel symbol oid) e = engine_cancel_order fuel symbol oid e"
| "apply_event fuel (Modify symbol oid new_quantity) e = engine_modify_order symbol oid new_quantity e"

fun run_events :: "nat \<Rightarrow> event list \<Rightarrow> MatchingEngine \<Rightarrow> error + MatchingEngine" where
  "run_events fuel [] e = Inr e"
| "run_events fuel (ev # evs) e = bind_result (apply_event fuel ev e) (run_events fuel evs)"

text \<open>An engine built with the default configuration but for the pool size, its queue
  array filled with zeros.\<close>

definition zero_report :: ExecutionReport where
  "zero_report = \<lparr>rep_order_id = 0, match_id = 0, rep_timestamp = 0, rep_price = 0,
     executed_quantity = 0, rep_side = BUY, is_full_fill = False\<rparr>"

definition engine_with_pool :: "64 word \<Rightarrow> MatchingEngine" where
  "engine_with_pool n =
     new_MatchingEngine (default_config\<lparr>order_pool_size := n\<rparr>) (\<lambda>_. zero_report)"

text \<open>What an observer reads after a run: the book of a symbol, a level of that book, an
  order slot, and the slot an id is mapped to.\<close>

definition book_of :: "string \<Rightarrow> error + MatchingEngine \<Rightarrow> OrderBook option" where
  "book_of symbol r = (case r of Inl _ \<Rightarrow> None | Inr e \<Rightarrow> get_book e symbol)"

definition level_at :: "string \<Rightarrow> nat \<Rightarrow> error + MatchingEngine \<Rightarrow> PriceLevel option" where
  "level_at symbol l r =
     (case book_of symbol r of None \<Rightarrow> None | Some b \<Rightarrow> Some (price_level_pool b l))"

definition order_at :: "nat \<Rightarrow> error + MatchingEngine \<Rightarrow> Order option" where
  "order_at slot r = (case r of Inl _ \<Rightarrow> None | Inr e \<Rightarrow> Some (order_pool e slot))"

definition resting_slot :: "string \<Rightarrow> 64 word \<Rightarrow> error + MatchingEngine \<Rightarrow> nat option" where
  "resting_slot symbol oid r = (case book_of symbol r of None \<Rightarrow> None | Some b \<Rightarrow> orders b oid)"

definition engine_of :: "error + MatchingEngine \<Rightarrow> MatchingEngine option" where
  "engine_of r = (case r of Inl _ \<Rightarrow> None | Inr e \<Rightarrow> Some e)"

text \<open>The level found in the index of a side at a price, if any.\<close>

definition indexed_level :: "string \<Rightarrow> Side \<Rightarrow> 32 word \<Rightarrow> error + MatchingEngine \<Rightarrow> level_ptr" where
  "indexed_level symbol s p r =
     (case book_of symbol r of
        None \<Rightarrow> None
      | Some b \<Rightarrow>
          (case find_level price_level_pool_size (price_level_pool b) p (tree_root s b) of
             Inl _ \<Rightarrow> None
           | Inr found \<Rightarrow> found))"

abbreviation (input) fuel4 :: nat where
  "fuel4 \<equiv> Suc (Suc (Suc (Suc 0)))"

text \<open>The total volume queries of the book of a symbol after a run.\<close>

definition bid_volume_of :: "string \<Rightarrow> error + MatchingEngine \<Rightarrow> 64 word option" where
  "bid_volume_of symbol r =
     (case book_of symbol r of
        None \<Rightarrow> None
      | Some b \<Rightarrow> (case get_total_bid_volume price_level_pool_size b of
                     Inl _ \<Rightarrow> None | Inr v \<Rightarrow> Some v))"

definition ask_volume_of :: "string \<Rightarrow> error + MatchingEngine \<Rightarrow> 64 word option" where
  "ask_volume_of symbol r =
     (case book_of symbol r of
        None \<Rightarrow> None
      | Some b \<Rightarrow> (case get_total_ask_volume price_level_pool_size b of
                     Inl _ \<Rightarrow> None | Inr v \<Rightarrow> Some v))"

text \<open>The report in a slot of the execution queue's array after a run.\<close>

definition report_at :: "nat \<Rightarrow> error + MatchingEngine \<Rightarrow> ExecutionReport option" where
  "report_at i r =
     (case r of Inl _ \<Rightarrow> None | Inr e \<Rightarrow> Some (buffer (execution_queue e) i))"

subsection \<open>Runs used below\<close>

text \<open>Three asks arrive at 100, 300 and 200, so that the level at 200 is the left child of
  the level at 300 in the ask tree; then a buy at 100 takes the whole level at 100.\<close>

definition asks_100_300_200 :: "event list" where
  "asks_100_300_200 =
     [Submit ''SYM'' 1 0 100 50 SELL LIMIT, Submit ''SYM'' 2 0 300 50 SELL LIMIT,
      Submit ''SYM'' 3 0 200 50 SELL LIMIT]"

definition deplete_best_ask_run :: "error + MatchingEngine" where
  "deplete_best_ask_run =
     run_events fuel4 (asks_100_300_200 @ [Submit ''SYM'' 4 0 100 50 BUY LIMIT])
       (engine_with_pool 10)"

text \<open>The same asks, then a buy at 300 for 150 that can take all three levels.\<close>

definition sweep_asks_run :: "error + MatchingEngine" where
  "sweep_asks_run =
     run_events fuel4 (asks_100_300_200 @ [Submit ''SYM'' 4 7 300 150 BUY LIMIT])
       (engine_with_pool 10)"

text \<open>Bids at 200, 100 and 300: the level at 200 is the root with two children. The
  order at 200 is then cancelled.\<close>

definition cancel_two_children_run :: "error + MatchingEngine" where
  "cancel_two_children_run =
     run_events fuel4
       [Submit ''SYM'' 1 0 200 50 BUY LIMIT, Submit ''SYM'' 2 0 100 50 BUY LIMIT,
        Submit ''SYM'' 3 0 300 50 BUY LIMIT, Cancel ''SYM'' 1]
       (engine_with_pool 10)"

text \<open>The orders of the test \<open>MultiplePriceLevels\<close> of test\_order\_book.cpp.\<close>

definition three_bids_run :: "error + MatchingEngine" where
  "three_bids_run =
     run_events fuel4
       [Submit ''SYM'' 1 0 100000 100 BUY LIMIT, Submit ''SYM'' 2 0 99900 100 BUY LIMIT,
        Submit ''SYM'' 3 0 99800 100 BUY LIMIT]
       (engine_with_pool 10)"

text \<open>A pool of one slot: an order rests, is cancelled, and a second order arrives.\<close>

definition reuse_pool_run :: "error + MatchingEngine" where
  "reuse_pool_run =
     run_events fuel4
       [Submit ''SYM'' 1 0 100 50 BUY LIMIT, Cancel ''SYM'' 1,
        Submit ''SYM'' 2 0 100 50 BUY LIMIT]
       (engine_with_pool 1)"

text \<open>The order of the test \<open>ModifyOrder\<close> of test\_order\_book.cpp, modified to 150 as
  in the test, to 0, or cancelled.\<close>

definition one_bid :: "event list" where
  "one_bid = [Submit ''SYM'' 1 0 100000 100 BUY LIMIT]"

definition modify_150_run :: "error + MatchingEngine" where
  "modify_150_run = run_events fuel4 (one_bid @ [Modify ''SYM'' 1 150]) (engine_with_pool 10)"

definition modify_zero_run :: "error + MatchingEngine" where
  "modify_zero_run = run_events fuel4 (one_bid @ [Modify ''SYM'' 1 0]) (engine_with_pool 10)"

definition cancel_run :: "error + MatchingEngine" where
  "cancel_run = run_events fuel4 (one_bid @ [Cancel ''SYM'' 1]) (engine_with_pool 10)"

text \<open>The same order modified to 0, then a sell of 10 at its price.\<close>

definition modify_zero_then_sell_run :: "error + MatchingEngine" where
  "modify_zero_then_sell_run =
     run_events fuel4
       (one_bid @ [Modify ''SYM'' 1 0, Submit ''SYM'' 2 9 100000 10 SELL LIMIT])
       (engine_with_pool 10)"

text \<open>An ask of 50 at 100 and a bid with id 7 at 90 rest; then a buy of 50 at 100 arrives
  with the id 7 again and is filled by the ask.\<close>

definition duplicate_id_filled_run :: "error + MatchingEngine" where
  "duplicate_id_filled_run =
     run_events fuel4
       [Submit ''SYM'' 1 0 100 50 SELL LIMIT, Submit ''SYM'' 7 1 90 10 BUY LIMIT,
        Submit ''SYM'' 7 2 100 50 BUY LIMIT]
       (engine_with_pool 10)"

text \<open>A store and a book with one resting bid, as \<open>add_order\<close> leaves them for the
  order of the test \<open>ModifyOrder\<close>.\<close>

definition one_order_store :: order_store where
  "one_order_store = (\<lambda>_. new_Order)(0 := new_Order\<lparr>order_id := 1, price := 100000,
      quantity := 100, remaining_quantity := 100, parent_level := Some 0\<rparr>)"

definition one_order_book :: OrderBook where
  "one_order_book = new_OrderBook\<lparr>bid_tree_root := Some 0, best_bid := Some 0,
      orders := [1 \<mapsto> 0],
      price_level_pool := (\<lambda>_. new_PriceLevel 0)(0 := (new_PriceLevel 100000)\<lparr>total_volume := 100,
         order_count := 1, head_order := Some 0, tail_order := Some 0\<rparr>),
      level_pool_index := 1, book_order_count := 1\<rparr>"

subsection \<open>Notions used to state the properties\<close>




text \<open>The engine after the order of the test \<open>ModifyOrder\<close> came to rest.\<close>

definition one_order_engine :: MatchingEngine where
  "one_order_engine = (engine_with_pool 10)\<lparr>books := [''SYM'' \<mapsto> one_order_book],
     order_pool := one_order_store, pool_index := 1, total_orders := 1\<rparr>"

subsection \<open>The shape of a level index\<close>

text \<open>\<open>index_shape n h ls root\<close>: the levels reached from \<open>root\<close> through \<open>left\<close> and
  \<open>right\<close> form a tree of height at most \<open>h\<close>, of levels allocated below \<open>n\<close> that
  hold orders.\<close>

fun index_shape :: "nat \<Rightarrow> nat \<Rightarrow> level_store \<Rightarrow> level_ptr \<Rightarrow> bool" where
  "index_shape n h ls None = True"
| "index_shape n 0 ls (Some r) = False"
| "index_shape n (Suc h) ls (Some r) =
     (r < n \<and> order_count (ls r) \<noteq> 0
      \<and> index_shape n h ls (left (ls r)) \<and> index_shape n h ls (right (ls r)))"



subsection \<open>Bounds of the resting orders\<close>














section \<open>Evaluation of runs\<close>

lemmas engine_defs =
  submit_order_def engine_cancel_order_def engine_modify_order_def get_book_def
  allocate_order_def deallocate_order_def is_aggressive_def new_MatchingEngine_def
  default_config_def engine_with_pool_def zero_report_def new_Order_def
  execution_queue_capacity_def push_def pop_def

lemmas book_defs =
  add_order_def cancel_order_def modify_order_def match_order_def execute_trade_def
  find_or_create_level_def insert_level_def level_add_order_def level_remove_order_def
  replace_in_parent_def update_best_bid_def update_best_ask_def tree_root_def
  set_tree_root_def new_OrderBook_def new_PriceLevel_def price_level_pool_size_def
  get_total_bid_volume_def get_total_ask_volume_def get_spread_def

lemmas observer_defs =
  book_of_def level_at_def order_at_def resting_slot_def engine_of_def indexed_level_def
  bid_volume_of_def ask_volume_of_def report_at_def

lemmas run_defs =
  asks_100_300_200_def deplete_best_ask_run_def sweep_asks_run_def
  cancel_two_children_run_def three_bids_run_def reuse_pool_run_def one_bid_def
  modify_150_run_def modify_zero_run_def cancel_run_def modify_zero_then_sell_run_def
  duplicate_id_filled_run_def

lemmas eval_defs =
  engine_defs book_defs observer_defs run_defs bind_result_def Let_def
  word_le_nat_alt word_less_nat_alt

lemma find_level_numeral:
  "find_level (numeral k) ls p (Some r) =
     (if p = level_price (ls r) then Inr (Some r)
      else find_level (pred_numeral k) ls p
             (if p < level_price (ls r) then left (ls r) else right (ls r)))"
  by (simp add: numeral_eq_Suc)

lemma sum_right_spine_numeral:
  "sum_right_spine (numeral k) ls (Some level) volume =
     sum_right_spine (pred_numeral k) ls (right (ls level))
       (volume + ucast (total_volume (ls level)))"
  by (simp add: numeral_eq_Suc)

lemma sum_left_spine_numeral:
  "sum_left_spine (numeral k) ls (Some level) volume =
     sum_left_spine (pred_numeral k) ls (left (ls level))
       (volume + ucast (total_volume (ls level)))"
  by (simp add: numeral_eq_Suc)

lemmas fuel_numeral = find_level_numeral sum_right_spine_numeral sum_left_spine_numeral

text \<open>The mask \<open>Capacity - 1\<close> of a capacity that is a power of two.\<close>

lemma and_pow2_minus_1: "(n::nat) AND (2 ^ k - 1) = n mod 2 ^ k"
proof -
  have "(n::nat) AND mask k = take_bit k n"
    by (simp add: take_bit_eq_mask)
  then show ?thesis
    by (simp only: mask_eq_exp_minus_1 take_bit_eq_mod)
qed

lemma and_65535: "n < 65536 \<Longrightarrow> (n::nat) AND 65535 = n"
  using and_pow2_minus_1 [of n 16] by simp

section \<open>Pool exhaustion\<close>

text \<open>
  Claim C7. A \<open>submit_order\<close> called when the cursor of the pool has reached
  \<open>order_pool_size\<close> returns normally, whatever the fuel; it leaves the execution queue,
  \<open>total_matches\<close>, \<open>total_orders\<close> and every order slot as they were, and the books as
  they were: the book of the symbol is unchanged when it existed, and is the empty book that
  the first step of \<open>submit_order\<close> installs when it did not.
\<close>

theorem submit_order_pool_exhausted:
  assumes "order_pool_size (config e) \<le> pool_index e"
  shows "\<exists>e'. submit_order fuel symbol oid ts p qty s t e = Inr e'
           \<and> execution_queue e' = execution_queue e
           \<and> total_matches e' = total_matches e
           \<and> total_orders e' = total_orders e
           \<and> order_pool e' = order_pool e
           \<and> config e' = config e
           \<and> books e' = (case get_book e symbol of
                            None \<Rightarrow> (books e)(symbol \<mapsto> new_OrderBook)
                          | Some b \<Rightarrow> books e)"
  using assms
  by (cases "get_book e symbol") (simp_all add: submit_order_def allocate_order_def Let_def)

theorem submit_order_pool_exhausted_witness:
  "order_pool_size (config ((engine_with_pool 1)\<lparr>pool_index := 1\<rparr>))
     \<le> pool_index ((engine_with_pool 1)\<lparr>pool_index := 1\<rparr>)
   \<and> (\<exists>e'. submit_order 0 ''AAPL'' 7 0 100 50 BUY LIMIT ((engine_with_pool 1)\<lparr>pool_index := 1\<rparr>) = Inr e'
         \<and> execution_queue e' = execution_queue ((engine_with_pool 1)\<lparr>pool_index := 1\<rparr>)
         \<and> total_orders e' = 0
         \<and> books e' = [''AAPL'' \<mapsto> new_OrderBook])"
proof -
  have h: "order_pool_size (config ((engine_with_pool 1)\<lparr>pool_index := 1\<rparr>))
             \<le> pool_index ((engine_with_pool 1)\<lparr>pool_index := 1\<rparr>)"
    by (simp add: engine_with_pool_def new_MatchingEngine_def default_config_def)
  from submit_order_pool_exhausted [OF h, of 0 "''AAPL''" 7 0 100 50 BUY LIMIT]
  show ?thesis
    by (auto simp: engine_with_pool_def new_MatchingEngine_def default_config_def get_book_def)
qed


section \<open>Best pointers and the level index\<close>

text \<open>
  Claim C1 (the best ask is the lowest ask level of the index, also after a match that
  empties the best level). After asks at 100, 300 and 200, a buy that takes the level at 100
  leaves \<open>best_ask\<close> at the level of price 300 (the right child of the emptied level),
  while the level of price 200, with its one order, is in the ask index.
\<close>

theorem best_ask_after_match_is_not_lowest_ask:
  "map_option best_ask (book_of ''SYM'' deplete_best_ask_run) = Some (Some 1)
   \<and> map_option level_price (level_at ''SYM'' 1 deplete_best_ask_run) = Some 300
   \<and> indexed_level ''SYM'' SELL 200 deplete_best_ask_run = Some 2
   \<and> map_option level_price (level_at ''SYM'' 2 deplete_best_ask_run) = Some 200
   \<and> map_option order_count (level_at ''SYM'' 2 deplete_best_ask_run) = Some 1
   \<and> resting_slot ''SYM'' 3 deplete_best_ask_run = Some 2
   \<and> map_option parent_level (order_at 2 deplete_best_ask_run) = Some (Some 2)"
  by (simp add: eval_defs fuel_numeral)

text \<open>
  Claim C2 (the back-pointer of a resting order leads to a level of the index that holds
  it). Bids rest at 200, 100 and 300 and the order at 200 is cancelled. Its level has two
  children, so \<open>remove_level\<close> copies the successor (the level at 300, address 2) into it
  and unlinks the successor. The order with id 3 still rests in slot 2 and its back-pointer
  is still address 2, but the bid index now consists of the addresses 0 and 1 only: the
  level of price 300 that the index holds is address 0.
\<close>

theorem back_pointer_leaves_index_after_cancel:
  "resting_slot ''SYM'' 3 cancel_two_children_run = Some 2
   \<and> map_option parent_level (order_at 2 cancel_two_children_run) = Some (Some 2)
   \<and> map_option bid_tree_root (book_of ''SYM'' cancel_two_children_run) = Some (Some 0)
   \<and> map_option left (level_at ''SYM'' 0 cancel_two_children_run) = Some (Some 1)
   \<and> map_option right (level_at ''SYM'' 0 cancel_two_children_run) = Some None
   \<and> map_option left (level_at ''SYM'' 1 cancel_two_children_run) = Some None
   \<and> map_option right (level_at ''SYM'' 1 cancel_two_children_run) = Some None
   \<and> indexed_level ''SYM'' BUY 300 cancel_two_children_run = Some 0
   \<and> map_option head_order (level_at ''SYM'' 0 cancel_two_children_run) = Some (Some 2)
   \<and> map_option best_bid (book_of ''SYM'' cancel_two_children_run) = Some (Some 2)"
  by (simp add: eval_defs fuel_numeral)

text \<open>
  Claim C3 (the total volume of a side is the sum over all its levels). With the three bids
  of the test \<open>MultiplePriceLevels\<close>, each of 100, every level is in the bid index with a
  volume of 100, and \<open>get_total_bid_volume\<close> returns 100, the volume of the root alone:
  the two lower levels hang to the left of the root and the loop only goes right.
\<close>

theorem total_bid_volume_misses_left_levels:
  "bid_volume_of ''SYM'' three_bids_run = Some 100
   \<and> indexed_level ''SYM'' BUY 100000 three_bids_run = Some 0
   \<and> indexed_level ''SYM'' BUY 99900 three_bids_run = Some 1
   \<and> indexed_level ''SYM'' BUY 99800 three_bids_run = Some 2
   \<and> map_option total_volume (level_at ''SYM'' 0 three_bids_run) = Some 100
   \<and> map_option total_volume (level_at ''SYM'' 1 three_bids_run) = Some 100
   \<and> map_option total_volume (level_at ''SYM'' 2 three_bids_run) = Some 100"
  by (simp add: eval_defs fuel_numeral)

section \<open>Matching\<close>

text \<open>
  Claim C4 (reports follow the FIFO of the best level, then the levels from the best
  outward). A buy at 300 for 150 meets asks of 50 at 100, 200 and 300. It trades at 100 and
  then at 300: two reports, and the ask at 200, the second best, is not touched. The buy
  is left with 50 and rests.
\<close>

theorem match_skips_second_best_level:
  "map_option total_matches (engine_of sweep_asks_run) = Some 2
   \<and> map_option rep_price (report_at 0 sweep_asks_run) = Some 100
   \<and> map_option executed_quantity (report_at 0 sweep_asks_run) = Some 50
   \<and> map_option rep_price (report_at 1 sweep_asks_run) = Some 300
   \<and> map_option executed_quantity (report_at 1 sweep_asks_run) = Some 50
   \<and> map_option is_full_fill (report_at 1 sweep_asks_run) = Some False
   \<and> resting_slot ''SYM'' 3 sweep_asks_run = Some 2
   \<and> map_option remaining_quantity (order_at 2 sweep_asks_run) = Some 50
   \<and> map_option price (order_at 2 sweep_asks_run) = Some 200
   \<and> resting_slot ''SYM'' 4 sweep_asks_run = Some 3
   \<and> map_option remaining_quantity (order_at 3 sweep_asks_run) = Some 50"
  by (simp add: eval_defs fuel_numeral and_65535)

text \<open>
  The fields of a single report are those of \<open>execute_trade\<close>, which the inner loop calls
  with \<open>match_qty\<close>, the minimum of the two remaining quantities, before it updates them
  (lemma \<open>match_fifo_Suc\<close> below): the quantity passed, the price of the passive order, the
  timestamp of the aggressor, and a full-fill flag that holds exactly when the fill leaves
  the aggressor with nothing.
\<close>

lemma execute_trade_fields:
  "executed_quantity (execute_trade a p q m) = q"
  "rep_price (execute_trade a p q m) = price p"
  "rep_timestamp (execute_trade a p q m) = timestamp a"
  "rep_order_id (execute_trade a p q m) = order_id a"
  "is_full_fill (execute_trade a p q m) \<longleftrightarrow> remaining_quantity a - q = 0"
  by (simp_all add: execute_trade_def)

section \<open>Modify\<close>

text \<open>
  Claim C5 (\<open>modify_order(id, 0)\<close> is a cancel). \<open>modify_order\<close> has no branch for a new
  quantity of 0. On the order of the test \<open>ModifyOrder\<close>: after the modify to 0 the id is
  still mapped to slot 0, the order is still the head of its level, with a remaining
  quantity of 0, and the level is still the root and the best bid; after a cancel of the
  same order the id is unmapped and the bid side is empty. A sell of 10 at the price of the
  order then trades with it: one report, for a quantity of 0, and the sell rests whole.
\<close>

theorem modify_zero_is_not_cancel:
  "resting_slot ''SYM'' 1 modify_zero_run = Some 0
   \<and> map_option remaining_quantity (order_at 0 modify_zero_run) = Some 0
   \<and> map_option parent_level (order_at 0 modify_zero_run) = Some (Some 0)
   \<and> map_option head_order (level_at ''SYM'' 0 modify_zero_run) = Some (Some 0)
   \<and> map_option order_count (level_at ''SYM'' 0 modify_zero_run) = Some 1
   \<and> map_option best_bid (book_of ''SYM'' modify_zero_run) = Some (Some 0)
   \<and> map_option bid_tree_root (book_of ''SYM'' modify_zero_run) = Some (Some 0)
   \<and> resting_slot ''SYM'' 1 cancel_run = None
   \<and> map_option parent_level (order_at 0 cancel_run) = Some None
   \<and> map_option best_bid (book_of ''SYM'' cancel_run) = Some None
   \<and> map_option bid_tree_root (book_of ''SYM'' cancel_run) = Some None
   \<and> map_option total_matches (engine_of modify_zero_then_sell_run) = Some 1
   \<and> map_option rep_order_id (report_at 0 modify_zero_then_sell_run) = Some 2
   \<and> map_option rep_price (report_at 0 modify_zero_then_sell_run) = Some 100000
   \<and> map_option executed_quantity (report_at 0 modify_zero_then_sell_run) = Some 0
   \<and> map_option remaining_quantity (order_at 1 modify_zero_then_sell_run) = Some 10
   \<and> resting_slot ''SYM'' 2 modify_zero_then_sell_run = Some 1"
  by (simp add: eval_defs fuel_numeral and_65535)

text \<open>
  What \<open>modify_order(id, 0)\<close> does in general on an id of the map whose order has a
  level: it returns normally, the id map is unchanged, the remaining quantity of the order
  is 0 and no other field of any order changes, so the order keeps its place in the FIFO;
  the volume of its level goes down by the remaining quantity it had and no other field of
  any level changes; the roots, the best pointers and the counters of the book are
  unchanged.
\<close>

lemma modify_order_zero_effect:
  assumes "orders b oid = Some ord" and "parent_level (os ord) = Some level"
  shows "\<exists>os' b'. modify_order oid 0 (os, b) = Inr (os', b')
     \<and> orders b' oid = Some ord
     \<and> orders b' = orders b
     \<and> remaining_quantity (os' ord) = 0
     \<and> (\<forall>x. (os' x)\<lparr>remaining_quantity := 0\<rparr> = (os x)\<lparr>remaining_quantity := 0\<rparr>)
     \<and> (\<forall>l. (price_level_pool b' l)\<lparr>total_volume := 0\<rparr> = (price_level_pool b l)\<lparr>total_volume := 0\<rparr>)
     \<and> total_volume (price_level_pool b' level)
           = total_volume (price_level_pool b level) - remaining_quantity (os ord)
     \<and> b'\<lparr>price_level_pool := price_level_pool b\<rparr> = b"
  using assms by (simp add: modify_order_def Let_def)


text \<open>
  \<open>modify_order(id, q)\<close> on a resting order returns normally, keeps the id map, leaves
  every other order as it was, keeps the original quantity of the order and sets its
  remaining quantity to \<open>q\<close> whatever \<open>q\<close> is.
\<close>

lemma modify_order_effect:
  assumes "orders b oid = Some ord" and "parent_level (os ord) = Some level"
  shows "\<exists>os' b'. modify_order oid q (os, b) = Inr (os', b')
     \<and> orders b' = orders b
     \<and> remaining_quantity (os' ord) = q
     \<and> quantity (os' ord) = quantity (os ord)
     \<and> (\<forall>x. x \<noteq> ord \<longrightarrow> os' x = os x)"
  using assms by (simp add: modify_order_def Let_def)

section \<open>The SPSC queue as a bounded FIFO\<close>

lemma and_pow2_minus_Suc0: "(n::nat) AND (2 ^ k - Suc 0) = n mod 2 ^ k"
  using and_pow2_minus_1 [of n k] by simp

lemma succ_mod: "h < C \<Longrightarrow> Suc h mod C = (if Suc h = C then 0 else Suc h)"
  by simp

lemma length_stored: "length (stored C q) = size_q C q"
  by (simp add: stored_def)

lemma size_q_less: "in_range C q \<Longrightarrow> size_q C q < C"
  by (auto simp: in_range_def size_q_def)

lemma full_iff:
  assumes "in_range C q"
  shows "(Suc (head q) mod C = tail q) = (size_q C q = C - 1)"
  using assms by (auto simp: in_range_def size_q_def succ_mod)

lemma slot_of_index:
  assumes "in_range C q" "i \<le> size_q C q"
  shows "((tail q + i) mod C = head q) = (i = size_q C q)"
proof (cases "tail q + i < C")
  case True
  with assms show ?thesis by (auto simp: in_range_def size_q_def split: if_splits)
next
  case False
  then have "(tail q + i) mod C = tail q + i - C"
    using assms by (simp add: in_range_def size_q_def le_mod_geq split: if_splits)
  with False assms show ?thesis by (auto simp: in_range_def size_q_def split: if_splits)
qed

lemma push_stored:
  assumes "in_range C q" "C = 2 ^ k"
  shows "fst (push C q x) = (length (stored C q) \<noteq> C - 1)"
    and "length (stored C q) = C - 1 \<Longrightarrow> snd (push C q x) = q"
    and "length (stored C q) \<noteq> C - 1 \<Longrightarrow> stored C (snd (push C q x)) = stored C q @ [x]"
    and "in_range C (snd (push C q x))"
proof -
  let ?q' = "q\<lparr>buffer := (buffer q)(head q := x), head := Suc (head q) mod C\<rparr>"
  have full: "(Suc (head q) mod C = tail q) = (size_q C q = C - 1)"
    by (rule full_iff [OF assms(1)])
  have pushed: "push C q x = (if Suc (head q) mod C = tail q then (False, q) else (True, ?q'))"
    using assms(2) by (simp add: push_def Let_def and_pow2_minus_Suc0)
  show "fst (push C q x) = (length (stored C q) \<noteq> C - 1)"
    by (simp add: pushed full length_stored)
  show "snd (push C q x) = q" if "length (stored C q) = C - 1"
    using that by (simp add: pushed full length_stored)
  have pos: "0 < C"
    using assms(1) by (auto simp: in_range_def)
  show "in_range C (snd (push C q x))"
    using assms(1) pos by (simp add: pushed in_range_def)
  show "stored C (snd (push C q x)) = stored C q @ [x]" if nf: "length (stored C q) \<noteq> C - 1"
  proof -
    from nf have nfull: "Suc (head q) mod C \<noteq> tail q"
      by (simp add: full length_stored)
    have sz: "size_q C ?q' = Suc (size_q C q)"
      using assms(1) nfull by (auto simp: in_range_def size_q_def succ_mod split: if_splits)
    have old: "\<And>i. i < size_q C q \<Longrightarrow> (tail q + i) mod C \<noteq> head q"
      using slot_of_index [OF assms(1)] by (simp add: less_imp_le)
    have new: "(tail q + size_q C q) mod C = head q"
      using slot_of_index [OF assms(1), of "size_q C q"] by simp
    show ?thesis
      using nfull old by (auto simp: pushed stored_def sz new)
  qed
qed

lemma pop_stored:
  assumes "in_range C q" "C = 2 ^ k"
  shows "fst (pop C q) = (case stored C q of [] \<Rightarrow> None | y # ys \<Rightarrow> Some y)"
    and "stored C q = [] \<Longrightarrow> snd (pop C q) = q"
    and "stored C q \<noteq> [] \<Longrightarrow> stored C (snd (pop C q)) = tl (stored C q)"
    and "in_range C (snd (pop C q))"
proof -
  let ?q' = "q\<lparr>tail := Suc (tail q) mod C\<rparr>"
  have popped: "pop C q = (if tail q = head q then (None, q) else (Some (buffer q (tail q)), ?q'))"
    using assms(2) by (simp add: pop_def Let_def and_pow2_minus_Suc0)
  have emp: "(tail q = head q) = (size_q C q = 0)"
    using assms(1) by (auto simp: in_range_def size_q_def)
  have hd: "size_q C q \<noteq> 0 \<Longrightarrow> stored C q = buffer q (tail q) # map (\<lambda>i. buffer q ((tail q + Suc i) mod C)) [0..<size_q C q - 1]"
    using assms(1) by (cases "size_q C q") (simp_all add: stored_def in_range_def upt_rec [of 0] map_Suc_upt [symmetric] del: upt_Suc)
  have pos: "0 < C"
    using assms(1) by (auto simp: in_range_def)
  show "in_range C (snd (pop C q))"
    using assms(1) pos by (simp add: popped in_range_def)
  have sz: "tail q \<noteq> head q \<Longrightarrow> size_q C ?q' = size_q C q - 1"
    using assms(1) by (auto simp: in_range_def size_q_def succ_mod split: if_splits)
  have shift: "\<And>i. (Suc (tail q) mod C + i) mod C = (tail q + Suc i) mod C"
    by (simp add: mod_add_left_eq)
  show "fst (pop C q) = (case stored C q of [] \<Rightarrow> None | y # ys \<Rightarrow> Some y)"
    using hd by (cases "size_q C q = 0") (simp_all add: popped emp stored_def [where q = q])
  show "snd (pop C q) = q" if "stored C q = []"
    using that by (simp add: popped emp stored_def)
  show "stored C (snd (pop C q)) = tl (stored C q)" if "stored C q \<noteq> []"
  proof -
    from that have ne: "size_q C q \<noteq> 0" by (simp add: stored_def)
    then have "tail q \<noteq> head q" by (simp add: emp)
    then show ?thesis
      using hd [OF ne] sz by (simp add: popped stored_def [where q = ?q'] shift)
  qed
qed

lemma run_queue_refines:
  assumes "C = 2 ^ k"
  shows "in_range C q \<Longrightarrow> run_queue C ops q = bounded_fifo_run (C - 1) ops (stored C q)"
proof (induction ops arbitrary: q)
  case Nil
  show ?case by simp
next
  case (Cons op ops)
  note inv = Cons.prems
  show ?case
  proof (cases op)
    case (Push x)
    show ?thesis
    proof (cases "length (stored C q) = C - 1")
      case True
      with push_stored(1,2) [OF inv assms, of x] Cons.IH [OF inv] Push
      show ?thesis by (simp add: split_beta)
    next
      case False
      with push_stored(1,3,4) [OF inv assms, of x] Cons.IH [of "snd (push C q x)"] Push
      show ?thesis by (simp add: split_beta)
    qed
  next
    case Pop
    show ?thesis
    proof (cases "stored C q")
      case Nil
      with pop_stored(1,2) [OF inv assms] Cons.IH [OF inv] Pop
      show ?thesis by (simp add: split_beta)
    next
      case (Cons y ys)
      with pop_stored(1,3,4) [OF inv assms] Cons.IH [of "snd (pop C q)"] Pop
      show ?thesis by (simp add: split_beta)
    qed
  qed
qed

text \<open>
  Claim C9. For a capacity \<open>C = 2 ^ k\<close>, any sequence of pushes and pops on a queue
  that starts empty returns what the bounded FIFO with room for \<open>C - 1\<close> elements
  returns: a push fails exactly when \<open>C - 1\<close> elements are stored, a pop fails exactly
  when none is, and the elements come out in the order they went in, unchanged.
\<close>

theorem spsc_queue_is_bounded_fifo:
  "run_queue (2 ^ k) ops \<lparr>head = 0, tail = 0, buffer = buf\<rparr>
     = bounded_fifo_run (2 ^ k - 1) ops []"
  using run_queue_refines [of "2 ^ k" k "\<lparr>head = 0, tail = 0, buffer = buf\<rparr>" ops]
  by (simp add: in_range_def stored_def size_q_def)

section \<open>Duplicate order ids\<close>






















lemma one_order_engine_reached:
  "run_events fuel4 one_bid (engine_with_pool 10) = Inr one_order_engine"
  by (simp add: eval_defs one_order_engine_def one_order_book_def one_order_store_def)

subsection \<open>Enough fuel: the calls return\<close>


lemma index_shape_mono: "index_shape n h ls ptr \<Longrightarrow> h \<le> k \<Longrightarrow> index_shape n k ls ptr"
proof (induction h arbitrary: k ptr)
  case 0
  then show ?case by (cases ptr) simp_all
next
  case (Suc h)
  show ?case
  proof (cases ptr)
    case None
    then show ?thesis by simp
  next
    case (Some r)
    from Suc.prems(2) obtain k' where k: "k = Suc k'" "h \<le> k'"
      by (cases k) simp_all
    with Suc.prems(1) Some Suc.IH [of _ k'] show ?thesis by simp
  qed
qed






















section \<open>Bounds of the resting orders\<close>































end
